theory Spec2Isabelle
  imports Complex_Main
begin

section \<open>JavaScript numbers and the score argument\<close>

text \<open>
  The dashboard code (\<^verbatim>\<open>ui/lib/utils.ts\<close>) only compares numbers and never
  computes with them, so a JavaScript \<^verbatim>\<open>number\<close> is modelled as an exact real or
  one of the three non-finite values; a numeric literal denotes its decimal value.
  The argument of \<^verbatim>\<open>clampScore\<close> and \<^verbatim>\<open>scoreBand\<close> has the TypeScript type
  \<^verbatim>\<open>number | null | undefined\<close>.
\<close>

datatype js_number = Num real | NaN | Infinity | NegInfinity

datatype score_arg = JsNumber js_number | JsNull | JsUndefined

text \<open>The relational operators of JavaScript on numbers: every comparison with NaN is false.\<close>

fun js_lt :: "js_number \<Rightarrow> js_number \<Rightarrow> bool" where
  "js_lt NaN _ = False"
| "js_lt _ NaN = False"
| "js_lt (Num a) (Num b) = (a < b)"
| "js_lt (Num a) Infinity = True"
| "js_lt (Num a) NegInfinity = False"
| "js_lt Infinity _ = False"
| "js_lt NegInfinity NegInfinity = False"
| "js_lt NegInfinity _ = True"

definition js_gt :: "js_number \<Rightarrow> js_number \<Rightarrow> bool" where
  "js_gt a b = js_lt b a"

definition js_ge :: "js_number \<Rightarrow> js_number \<Rightarrow> bool" where
  "js_ge a b = (a \<noteq> NaN \<and> b \<noteq> NaN \<and> \<not> js_lt a b)"

section \<open>Score bands (ui/lib/utils.ts)\<close>

datatype band_id = Low | Watch | Elevated | Critical

text \<open>The type \<^verbatim>\<open>ScoreBand\<close>; its fields \<^verbatim>\<open>id\<close>, \<^verbatim>\<open>min\<close> and \<^verbatim>\<open>max\<close> carry a prefix here.\<close>

record ScoreBand =
  band_id :: band_id
  band_min :: js_number
  band_max :: js_number
  color :: string
  label :: string
  tone :: string

definition SCORE_BANDS :: "ScoreBand list" where
  "SCORE_BANDS =
    [ \<lparr> band_id = Low, band_min = Num 0.0, band_max = Num 0.35,
        color = ''#60a5fa'', label = ''0.00 - 0.34'', tone = ''Low'' \<rparr>,
      \<lparr> band_id = Watch, band_min = Num 0.35, band_max = Num 0.6,
        color = ''#facc15'', label = ''0.35 - 0.59'', tone = ''Watch'' \<rparr>,
      \<lparr> band_id = Elevated, band_min = Num 0.6, band_max = Num 0.85,
        color = ''#fb923c'', label = ''0.60 - 0.84'', tone = ''Elevated'' \<rparr>,
      \<lparr> band_id = Critical, band_min = Num 0.85, band_max = Num 1.01,
        color = ''#ef4444'', label = ''0.85 - 1.00'', tone = ''Critical'' \<rparr> ]"

text \<open>
  \<^verbatim>\<open>clampScore\<close>: null, undefined and NaN give 0; a number below 0 gives 0, a number
  above 1 gives 1; \<^verbatim>\<open>Number(score)\<close> of a number is that number.
\<close>

fun clampScore :: "score_arg \<Rightarrow> js_number" where
  "clampScore JsNull = Num 0"
| "clampScore JsUndefined = Num 0"
| "clampScore (JsNumber n) =
     (if n = NaN then Num 0
      else if js_lt n (Num 0) then Num 0
      else if js_gt n (Num 1) then Num 1
      else n)"

text \<open>The test of the loop body of \<^verbatim>\<open>scoreBand\<close>: \<^verbatim>\<open>s >= b.min && s < b.max\<close>.\<close>

definition in_band :: "js_number \<Rightarrow> ScoreBand \<Rightarrow> bool" where
  "in_band s b = (js_ge s (band_min b) \<and> js_lt s (band_max b))"

text \<open>
  The \<^verbatim>\<open>for ... of\<close> loop of \<^verbatim>\<open>scoreBand\<close>: the first band that contains the score,
  \<open>None\<close> when the loop falls through to the statement after it.
\<close>

fun find_band :: "js_number \<Rightarrow> ScoreBand list \<Rightarrow> ScoreBand option" where
  "find_band s [] = None"
| "find_band s (b # bs) = (if in_band s b then Some b else find_band s bs)"

definition scoreBand :: "score_arg \<Rightarrow> ScoreBand" where
  "scoreBand score =
     (let s = clampScore score in
      case find_band s SCORE_BANDS of
        Some b \<Rightarrow> b
      | None \<Rightarrow> SCORE_BANDS ! (length SCORE_BANDS - 1))"

definition scoreToColor :: "score_arg \<Rightarrow> string" where
  "scoreToColor score = color (scoreBand score)"

definition scoreToTone :: "score_arg \<Rightarrow> string" where
  "scoreToTone score = tone (scoreBand score)"

definition scoreToTextColor :: "score_arg \<Rightarrow> string" where
  "scoreToTextColor score =
     (let b = scoreBand score in
      if band_id b = Watch then ''#1f2937'' else ''#ffffff'')"

text \<open>
  The position in \<open>SCORE_BANDS\<close> of the band whose interval holds a finite score; it is
  not part of the source and only names the four cases in the proofs.
\<close>

definition band_index :: "real \<Rightarrow> nat" where
  "band_index v = (if v < 0.35 then 0 else if v < 0.6 then 1 else if v < 0.85 then 2 else 3)"

section \<open>The printed score (ui/components/AnomalyTable.tsx, the map page)\<close>





section \<open>The Mapbox colour expression (ui/lib/utils.ts)\<close>

text \<open>
  \<^verbatim>\<open>mapboxScoreColorExpression\<close> returns a nested array of strings and numbers, which
  Mapbox GL reads as an expression. The array is modelled as it is built.
\<close>

datatype mb_expr = S string | N js_number | A "mb_expr list"

definition mapboxScoreColorExpression :: "mb_expr list" where
  "mapboxScoreColorExpression =
    [ S ''step'',
      A [S ''to-number'', A [S ''get'', S ''anomaly_score''], N (Num 0)],
      S (color (SCORE_BANDS ! 0)),
      N (band_min (SCORE_BANDS ! 1)),
      S (color (SCORE_BANDS ! 1)),
      N (band_min (SCORE_BANDS ! 2)),
      S (color (SCORE_BANDS ! 2)),
      N (band_min (SCORE_BANDS ! 3)),
      S (color (SCORE_BANDS ! 3)) ]"

text \<open>
  The meaning of the expression is given by the Mapbox style specification, which is not
  code of this repository. \<^verbatim>\<open>["to-number", ["get", k], d]\<close> reads the numeric feature
  property \<open>k\<close>: a missing property is null and converts to 0, a value that is not a
  number falls through to the next argument \<open>d\<close>. \<^verbatim>\<open>["step", input, base, t1, c1, ...]\<close>
  yields the output of the last stop whose threshold is at most the input, and the base
  output when the input is below the first threshold.
\<close>

fun mb_input :: "mb_expr \<Rightarrow> (string \<rightharpoonup> js_number) \<Rightarrow> js_number option" where
  "mb_input (A [S opr, A [S g, S k], N d]) props =
     (if opr = ''to-number'' \<and> g = ''get'' then
        (case props k of
           None \<Rightarrow> Some (Num 0)
         | Some n \<Rightarrow> Some (if n = NaN then d else n))
      else None)"
| "mb_input _ props = None"

fun mb_stops :: "js_number \<Rightarrow> string \<Rightarrow> mb_expr list \<Rightarrow> string option" where
  "mb_stops v cur [] = Some cur"
| "mb_stops v cur (N t # S c # rest) = mb_stops v (if js_ge v t then c else cur) rest"
| "mb_stops v cur _ = None"

fun mb_step :: "mb_expr list \<Rightarrow> (string \<rightharpoonup> js_number) \<Rightarrow> string option" where
  "mb_step (S opr # input # S base # stops) props =
     (if opr = ''step'' then
        (case mb_input input props of
           None \<Rightarrow> None
         | Some v \<Rightarrow> mb_stops v base stops)
      else None)"
| "mb_step _ props = None"

section \<open>Base path (ui/lib/basePath.ts)\<close>

text \<open>
  The module only compares strings, tests prefixes and concatenates, so a string is a
  list of characters. \<^verbatim>\<open>s.startsWith(p)\<close>, and \<^verbatim>\<open>s.replace(/\/+$/, '')\<close>, which
  removes the run of slashes at the end of \<open>s\<close>.
\<close>

definition startsWith :: "string \<Rightarrow> string \<Rightarrow> bool" where
  "startsWith s p = (take (length p) s = p)"

definition stripTrailingSlashes :: "string \<Rightarrow> string" where
  "stripTrailingSlashes s = rev (dropWhile (\<lambda>c. c = CHR ''/'') (rev s))"

text \<open>
  The environment variable \<^verbatim>\<open>NEXT_PUBLIC_BASE_PATH\<close> is a string or undefined;
  \<^verbatim>\<open>process.env.NEXT_PUBLIC_BASE_PATH || ''\<close> turns undefined and the empty string
  into the empty string.
\<close>

definition rawBasePath :: "string option \<Rightarrow> string" where
  "rawBasePath env = (case env of None \<Rightarrow> [] | Some v \<Rightarrow> if v = [] then [] else v)"

definition baseWithLeadingSlash :: "string option \<Rightarrow> string" where
  "baseWithLeadingSlash env =
     (let raw = rawBasePath env in
      if raw \<noteq> [] then (if startsWith raw ''/'' then raw else ''/'' @ raw) else [])"

definition BASE_PATH :: "string option \<Rightarrow> string" where
  "BASE_PATH env =
     (if baseWithLeadingSlash env = ''/'' then []
      else stripTrailingSlashes (baseWithLeadingSlash env))"

text \<open>
  \<^verbatim>\<open>withBasePath\<close> reads the module constant \<^verbatim>\<open>BASE_PATH\<close>; here it is the first
  argument.
\<close>

definition withBasePath :: "string \<Rightarrow> string \<Rightarrow> string" where
  "withBasePath base path =
     (if path = [] then (if base \<noteq> [] then base else ''/'')
      else
        let normalized = (if startsWith path ''/'' then path else ''/'' @ path) in
        if base = [] then normalized
        else if normalized = base \<or> startsWith normalized (base @ ''/'') then normalized
        else base @ normalized)"

section \<open>Scores of the online trainer\<close>

text \<open>
  The online trainer (\<^verbatim>\<open>worker/\<close>) is not among the sources; the README documents its
  thresholds (section Scoring Logic), the specification its component scores. The two
  definitions of a score and the two classifications below are over exact reals.
\<close>

text \<open>Modelled from the spec: \<^verbatim>\<open>clip01\<close>, the trainer's clip of a score to [0,1].\<close>

definition clip01 :: "real \<Rightarrow> real" where
  "clip01 x = max 0 (min 1 x)"

text \<open>
  Modelled from the spec: the trainer's relative-error component,
  \<^verbatim>\<open>clip01(|residual| / max(predicted_headway_sec, floor-constant))\<close>. The floor constant
  is configuration and a parameter here.
\<close>

definition relative_error_score :: "real \<Rightarrow> real \<Rightarrow> real \<Rightarrow> real" where
  "relative_error_score residual predicted_headway_sec floor_constant =
     clip01 (\<bar>residual\<bar> / max predicted_headway_sec floor_constant)"

text \<open>
  Modelled from the spec: the trainer's two classifications of a final score,
  \<^verbatim>\<open>is_anomaly = anomaly_score >= 0.60\<close> and \<^verbatim>\<open>is_high_anomaly = anomaly_score >= 0.85\<close>.
\<close>

definition is_anomaly :: "real \<Rightarrow> bool" where
  "is_anomaly score = (score \<ge> 0.60)"

definition is_high_anomaly :: "real \<Rightarrow> bool" where
  "is_high_anomaly score = (score \<ge> 0.85)"

section \<open>The clamp\<close>

lemma clampScore_cases:
  "clampScore x = Num 0 \<or> clampScore x = Num 1 \<or>
   (\<exists>v. x = JsNumber (Num v) \<and> 0 \<le> v \<and> v \<le> 1 \<and> clampScore x = Num v)"
proof (cases x)
  case (JsNumber n)
  then show ?thesis
    by (cases n) (auto simp: js_gt_def)
qed simp_all

lemma clampScore_Num:
  obtains v where "clampScore x = Num v" "0 \<le> v" "v \<le> 1"
  using clampScore_cases [of x] by auto

lemma clampScore_unit:
  "0 \<le> v \<Longrightarrow> v \<le> 1 \<Longrightarrow> clampScore (JsNumber (Num v)) = Num v"
  by (simp add: js_gt_def)

section \<open>The bands\<close>

text \<open>The four intervals cover [0, 1.01) and do not overlap.\<close>

lemma find_band_Num:
  assumes "0 \<le> v" "v < 1.01"
  shows "find_band (Num v) SCORE_BANDS = Some (SCORE_BANDS ! band_index v)"
  using assms by (simp add: SCORE_BANDS_def band_index_def in_band_def js_ge_def)

lemma filter_band_Num:
  assumes "0 \<le> v" "v < 1.01"
  shows "filter (in_band (Num v)) SCORE_BANDS = [SCORE_BANDS ! band_index v]"
  using assms by (simp add: SCORE_BANDS_def band_index_def in_band_def js_ge_def)

lemma band_index_less: "band_index v < length SCORE_BANDS"
  by (simp add: band_index_def SCORE_BANDS_def)

lemma scoreBand_Num:
  assumes "0 \<le> v" "v \<le> 1"
  shows "scoreBand (JsNumber (Num v)) = SCORE_BANDS ! band_index v"
proof -
  from assms have c: "clampScore (JsNumber (Num v)) = Num v"
    by (rule clampScore_unit)
  from assms have "v < 1.01" by simp
  with assms(1) have "find_band (Num v) SCORE_BANDS = Some (SCORE_BANDS ! band_index v)"
    by (rule find_band_Num)
  then show ?thesis
    unfolding scoreBand_def c by simp
qed

lemma band_id_index:
  "band_id (SCORE_BANDS ! band_index v) =
     (if v < 0.35 then Low else if v < 0.6 then Watch
      else if v < 0.85 then Elevated else Critical)"
  by (simp add: SCORE_BANDS_def band_index_def)

text \<open>
  Claim C8. For every argument (any number, NaN, null or undefined) the loop of
  \<^verbatim>\<open>scoreBand\<close> returns a band, so the statement after the loop is never reached; the
  band returned is one of the four of \<open>SCORE_BANDS\<close>, and it is the only band whose
  interval holds the clamped score.
\<close>

theorem scoreBand_total:
  "find_band (clampScore x) SCORE_BANDS = Some (scoreBand x) \<and>
   scoreBand x \<in> set SCORE_BANDS \<and>
   length SCORE_BANDS = 4 \<and>
   filter (in_band (clampScore x)) SCORE_BANDS = [scoreBand x]"
proof -
  obtain v where v: "clampScore x = Num v" "0 \<le> v" "v \<le> 1"
    by (rule clampScore_Num)
  then have v': "v < 1.01" by simp
  have fb: "find_band (Num v) SCORE_BANDS = Some (SCORE_BANDS ! band_index v)"
    using v(2) v' by (rule find_band_Num)
  then have sb: "scoreBand x = SCORE_BANDS ! band_index v"
    by (simp add: scoreBand_def v(1))
  have mem: "SCORE_BANDS ! band_index v \<in> set SCORE_BANDS"
    using band_index_less by (rule nth_mem)
  have len: "length SCORE_BANDS = 4"
    by (simp add: SCORE_BANDS_def)
  have flt: "filter (in_band (Num v)) SCORE_BANDS = [SCORE_BANDS ! band_index v]"
    using v(2) v' by (rule filter_band_Num)
  from fb sb mem len flt v(1) show ?thesis by simp
qed

section \<open>The clamp and the printed score\<close>







section \<open>Thresholds\<close>

text \<open>
  Claim C2. For every score \<open>s\<close> in [0,1]: the event is an anomaly exactly when
  \<open>s \<ge> 0.60\<close> and a high anomaly exactly when \<open>s \<ge> 0.85\<close>, and the bands agree with both
  cut points: \<^verbatim>\<open>scoreBand\<close> gives the band elevated or critical exactly for an anomaly
  and the band critical exactly for a high anomaly; the lower bounds of the bands
  elevated and critical are 0.6 and 0.85.
\<close>

theorem thresholds_match_bands:
  assumes "0 \<le> s" "s \<le> 1"
  shows "(is_anomaly s \<longleftrightarrow> s \<ge> 0.60) \<and> (is_high_anomaly s \<longleftrightarrow> s \<ge> 0.85) \<and>
         (is_anomaly s \<longleftrightarrow> band_id (scoreBand (JsNumber (Num s))) \<in> {Elevated, Critical}) \<and>
         (is_high_anomaly s \<longleftrightarrow> band_id (scoreBand (JsNumber (Num s))) = Critical) \<and>
         map (\<lambda>b. (band_id b, band_min b)) (drop 2 SCORE_BANDS)
           = [(Elevated, Num 0.6), (Critical, Num 0.85)]"
proof -
  have id: "band_id (scoreBand (JsNumber (Num s))) =
     (if s < 0.35 then Low else if s < 0.6 then Watch
      else if s < 0.85 then Elevated else Critical)"
    using assms by (simp only: scoreBand_Num band_id_index)
  have a: "is_anomaly s \<longleftrightarrow> band_id (scoreBand (JsNumber (Num s))) \<in> {Elevated, Critical}"
    unfolding id is_anomaly_def by auto
  have h: "is_high_anomaly s \<longleftrightarrow> band_id (scoreBand (JsNumber (Num s))) = Critical"
    unfolding id is_high_anomaly_def by auto
  have m: "map (\<lambda>b. (band_id b, band_min b)) (drop 2 SCORE_BANDS)
             = [(Elevated, Num 0.6), (Critical, Num 0.85)]"
    by (simp add: SCORE_BANDS_def)
  from a h m show ?thesis
    by (simp add: is_anomaly_def is_high_anomaly_def)
qed

theorem thresholds_match_bands_witness:
  "(0::real) \<le> 0.6 \<and> (0.6::real) \<le> 1 \<and> is_anomaly 0.6 \<and> \<not> is_high_anomaly 0.6 \<and>
   band_id (scoreBand (JsNumber (Num 0.6))) = Elevated"
proof -
  have a: "(0::real) \<le> 0.6" and b: "(0.6::real) \<le> 1" by simp_all
  have c: "is_anomaly 0.6" "\<not> is_high_anomaly 0.6"
    by (simp_all add: is_anomaly_def is_high_anomaly_def)
  from thresholds_match_bands [OF a b] c
  have "band_id (scoreBand (JsNumber (Num 0.6))) \<in> {Elevated, Critical}"
    and "band_id (scoreBand (JsNumber (Num 0.6))) \<noteq> Critical"
    by blast+
  then have "band_id (scoreBand (JsNumber (Num 0.6))) = Elevated"
    by simp
  with a b c show ?thesis by simp
qed

section \<open>The map layer and the badge use one colour mapping\<close>

lemma mb_step_Num:
  "mb_step mapboxScoreColorExpression [''anomaly_score'' \<mapsto> Num v]
     = Some (color (SCORE_BANDS ! band_index v))"
  by (simp add: mapboxScoreColorExpression_def SCORE_BANDS_def band_index_def js_ge_def)

text \<open>
  Claim C9. For every score \<open>s\<close> in [0,1], the step expression built by
  \<^verbatim>\<open>mapboxScoreColorExpression\<close>, evaluated on a feature whose property
  \<^verbatim>\<open>anomaly_score\<close> is \<open>s\<close>, selects the colour \<^verbatim>\<open>scoreBand(s).color\<close>, which is
  also \<^verbatim>\<open>scoreToColor(s)\<close>.
\<close>

theorem mapbox_color_matches_scoreBand:
  assumes "0 \<le> s" "s \<le> 1"
  shows "mb_step mapboxScoreColorExpression [''anomaly_score'' \<mapsto> Num s]
           = Some (color (scoreBand (JsNumber (Num s)))) \<and>
         scoreToColor (JsNumber (Num s)) = color (scoreBand (JsNumber (Num s)))"
  using assms by (simp add: scoreToColor_def scoreBand_Num mb_step_Num)

theorem mapbox_color_matches_scoreBand_witness:
  "(0::real) \<le> 0.6 \<and> (0.6::real) \<le> 1 \<and>
   mb_step mapboxScoreColorExpression [''anomaly_score'' \<mapsto> Num 0.6] = Some ''#fb923c'' \<and>
   color (scoreBand (JsNumber (Num 0.6))) = ''#fb923c''"
proof -
  have a: "(0::real) \<le> 0.6" and b: "(0.6::real) \<le> 1" by simp_all
  have c: "mb_step mapboxScoreColorExpression [''anomaly_score'' \<mapsto> Num 0.6] = Some ''#fb923c''"
    by (simp add: mapboxScoreColorExpression_def SCORE_BANDS_def js_ge_def)
  from mapbox_color_matches_scoreBand [OF a b] c a b show ?thesis by simp
qed

section \<open>Base path\<close>

lemma startsWith_slash: "startsWith s ''/'' \<longleftrightarrow> (\<exists>t. s = CHR ''/'' # t)"
  by (cases s) (auto simp: startsWith_def)

lemma startsWith_base_slash: "startsWith (base @ CHR ''/'' # n) (base @ ''/'')"
  by (simp add: startsWith_def)

text \<open>What \<open>stripTrailingSlashes\<close> returns is a prefix of its argument.\<close>

lemma stripTrailingSlashes_prefix:
  "\<exists>t. s = stripTrailingSlashes s @ t"
proof -
  let ?P = "\<lambda>c. c = CHR ''/''"
  have "rev (dropWhile ?P (rev s)) @ rev (takeWhile ?P (rev s))
          = rev (takeWhile ?P (rev s) @ dropWhile ?P (rev s))"
    by (simp only: rev_append)
  also have "\<dots> = rev (rev s)"
    by (simp only: takeWhile_dropWhile_id)
  also have "\<dots> = s"
    by simp
  finally have "s = stripTrailingSlashes s @ rev (takeWhile ?P (rev s))"
    by (simp only: stripTrailingSlashes_def)
  then show ?thesis ..
qed

lemma stripTrailingSlashes_leading:
  "stripTrailingSlashes (CHR ''/'' # u) = [] \<or>
   (\<exists>t. stripTrailingSlashes (CHR ''/'' # u) = CHR ''/'' # t)"
proof -
  obtain t where t: "CHR ''/'' # u = stripTrailingSlashes (CHR ''/'' # u) @ t"
    using stripTrailingSlashes_prefix by blast
  show ?thesis
  proof (cases "stripTrailingSlashes (CHR ''/'' # u)")
    case Nil
    then show ?thesis by simp
  next
    case (Cons y ys)
    with t have "y = CHR ''/''" by simp
    with Cons show ?thesis by simp
  qed
qed

lemma baseWithLeadingSlash_shape:
  "baseWithLeadingSlash env = [] \<or> (\<exists>u. baseWithLeadingSlash env = CHR ''/'' # u)"
  by (auto simp: baseWithLeadingSlash_def Let_def startsWith_slash)

text \<open>Every value of \<open>BASE_PATH\<close> is empty or begins with a slash.\<close>

lemma BASE_PATH_shape:
  "BASE_PATH env = [] \<or> (\<exists>t. BASE_PATH env = CHR ''/'' # t)"
proof -
  from baseWithLeadingSlash_shape [of env] show ?thesis
  proof
    assume "baseWithLeadingSlash env = []"
    then show ?thesis by (simp add: BASE_PATH_def stripTrailingSlashes_def)
  next
    assume "\<exists>u. baseWithLeadingSlash env = CHR ''/'' # u"
    then obtain u where u: "baseWithLeadingSlash env = CHR ''/'' # u" ..
    with stripTrailingSlashes_leading [of u] show ?thesis
      by (auto simp: BASE_PATH_def)
  qed
qed

text \<open>A non-empty path with a leading slash that carries the base is returned as it is.\<close>

lemma withBasePath_fixed:
  assumes "r \<noteq> []" "startsWith r ''/''"
    and "base = [] \<or> r = base \<or> startsWith r (base @ ''/'')"
  shows "withBasePath base r = r"
  using assms by (auto simp: withBasePath_def)

lemma withBasePath_result:
  assumes "base = [] \<or> (\<exists>t. base = CHR ''/'' # t)"
  shows "withBasePath base path \<noteq> [] \<and> startsWith (withBasePath base path) ''/'' \<and>
         (base = [] \<or> withBasePath base path = base \<or>
          startsWith (withBasePath base path) (base @ ''/''))"
proof (cases "path = []")
  case True
  with assms show ?thesis
    by (auto simp: withBasePath_def startsWith_slash)
next
  case False
  define n where "n = (if startsWith path ''/'' then path else ''/'' @ path)"
  have n: "\<exists>n'. n = CHR ''/'' # n'"
    by (auto simp: n_def startsWith_slash)
  have r: "withBasePath base path =
       (if base = [] then n
        else if n = base \<or> startsWith n (base @ ''/'') then n else base @ n)"
    using False by (simp add: withBasePath_def n_def)
  from n obtain n' where n': "n = CHR ''/'' # n'" ..
  show ?thesis
  proof (cases "base = [] \<or> n = base \<or> startsWith n (base @ ''/'')")
    case True
    then have "withBasePath base path = n" using r by auto
    with True n' show ?thesis by (auto simp: startsWith_slash)
  next
    case False
    then have eq: "withBasePath base path = base @ CHR ''/'' # n'" using r n' by auto
    from False assms obtain t where t: "base = CHR ''/'' # t" by auto
    have "startsWith (withBasePath base path) (base @ ''/'')"
      unfolding eq by (rule startsWith_base_slash)
    moreover from eq t have "withBasePath base path = CHR ''/'' # (t @ CHR ''/'' # n')"
      by simp
    then have "startsWith (withBasePath base path) ''/''"
      unfolding startsWith_slash by (rule exI)
    moreover have "withBasePath base path \<noteq> []"
      unfolding eq by simp
    ultimately show ?thesis by simp
  qed
qed

lemma withBasePath_idem_gen:
  assumes "base = [] \<or> (\<exists>t. base = CHR ''/'' # t)"
  shows "withBasePath base (withBasePath base path) = withBasePath base path"
  using withBasePath_result [OF assms, of path] by (intro withBasePath_fixed) auto

lemma withBasePath_slash_gen:
  assumes "base = [] \<or> (\<exists>t. base = CHR ''/'' # t)"
  shows "startsWith (withBasePath base path) ''/''"
  using withBasePath_result [OF assms, of path] by simp

lemma withBasePath_prefixed_gen:
  assumes "base = [] \<or> (\<exists>t. base = CHR ''/'' # t)"
  shows "withBasePath base (base @ ''/'' @ rest) = base @ ''/'' @ rest"
proof (rule withBasePath_fixed)
  show "base @ ''/'' @ rest \<noteq> []" by simp
  show "startsWith (base @ ''/'' @ rest) ''/''"
    using assms by (auto simp: startsWith_slash)
  show "base = [] \<or> base @ ''/'' @ rest = base \<or>
        startsWith (base @ ''/'' @ rest) (base @ ''/'')"
    using startsWith_base_slash [of base rest] by simp
qed

text \<open>
  Claim C10. For every value of the environment variable and every path,
  \<^verbatim>\<open>withBasePath(withBasePath(path)) = withBasePath(path)\<close>, the result begins with a
  slash, and a path that already is the base followed by a slash and anything is
  returned without a second prefix.
\<close>

theorem withBasePath_idempotent:
  "withBasePath (BASE_PATH env) (withBasePath (BASE_PATH env) path)
     = withBasePath (BASE_PATH env) path \<and>
   startsWith (withBasePath (BASE_PATH env) path) ''/'' \<and>
   withBasePath (BASE_PATH env) (BASE_PATH env @ ''/'' @ rest) = BASE_PATH env @ ''/'' @ rest"
  using BASE_PATH_shape [of env]
  by (simp only: withBasePath_idem_gen withBasePath_slash_gen withBasePath_prefixed_gen)

section \<open>The relative-error component\<close>

lemma clip01_mono: "x \<le> y \<Longrightarrow> clip01 x \<le> clip01 y"
  by (simp add: clip01_def)

text \<open>
  Claim C7. With the predicted headway and a positive floor constant fixed, a residual
  of larger magnitude never has a smaller \<open>relative_error_score\<close>.
\<close>

theorem relative_error_score_mono:
  assumes "0 < floor_constant" "\<bar>r1\<bar> \<le> \<bar>r2\<bar>"
  shows "relative_error_score r1 p floor_constant \<le> relative_error_score r2 p floor_constant"
proof -
  have "0 < max p floor_constant" using assms(1) by simp
  then have "\<bar>r1\<bar> / max p floor_constant \<le> \<bar>r2\<bar> / max p floor_constant"
    using assms(2) by (simp add: divide_right_mono)
  then show ?thesis
    unfolding relative_error_score_def by (rule clip01_mono)
qed

theorem relative_error_score_mono_witness:
  "(0::real) < 1 \<and> \<bar>30::real\<bar> \<le> \<bar>- 60\<bar> \<and>
   relative_error_score 30 300 1 = 0.1 \<and> relative_error_score (- 60) 300 1 = 0.2 \<and>
   relative_error_score 30 300 1 \<le> relative_error_score (- 60) 300 1"
proof -
  have a: "(0::real) < 1" and b: "\<bar>30::real\<bar> \<le> \<bar>- 60\<bar>" by simp_all
  have c: "relative_error_score 30 300 1 = 0.1" "relative_error_score (- 60) 300 1 = 0.2"
    by (simp_all add: relative_error_score_def clip01_def)
  from relative_error_score_mono [OF a b, of 300] a b c show ?thesis by simp
qed

end
